theory Spec2Isabelle
  imports Complex_Main
begin

section \<open>JavaScript numbers\<close>

text \<open>
  A TypeScript \<^verbatim>\<open>number\<close> is modelled as an extended real: a finite value, one of the
  two infinities, or NaN. Arithmetic on finite values is exact real arithmetic: rounding,
  overflow to infinity and the sign of zero are not modelled (a zero divisor is read as
  \<^verbatim>\<open>+0\<close>). What the operators do outside the finite values (division by zero, NaN
  propagation, comparisons with NaN) is written out as ECMAScript defines it.
\<close>

datatype number = Fin real | PosInf | NegInf | NaN

fun js_neg :: "number \<Rightarrow> number" where
  "js_neg (Fin a) = Fin (- a)"
| "js_neg PosInf = NegInf"
| "js_neg NegInf = PosInf"
| "js_neg NaN = NaN"

fun js_add :: "number \<Rightarrow> number \<Rightarrow> number" where
  "js_add (Fin a) (Fin b) = Fin (a + b)"
| "js_add (Fin a) PosInf = PosInf"
| "js_add (Fin a) NegInf = NegInf"
| "js_add PosInf (Fin b) = PosInf"
| "js_add NegInf (Fin b) = NegInf"
| "js_add PosInf PosInf = PosInf"
| "js_add NegInf NegInf = NegInf"
| "js_add PosInf NegInf = NaN"
| "js_add NegInf PosInf = NaN"
| "js_add NaN y = NaN"
| "js_add (Fin a) NaN = NaN"
| "js_add PosInf NaN = NaN"
| "js_add NegInf NaN = NaN"

definition js_sub :: "number \<Rightarrow> number \<Rightarrow> number" where
  "js_sub x y = js_add x (js_neg y)"

text \<open>The sign of a product or quotient with an infinite operand.\<close>

definition signed_inf :: "bool \<Rightarrow> number" where
  "signed_inf positive = (if positive then PosInf else NegInf)"

fun js_mul :: "number \<Rightarrow> number \<Rightarrow> number" where
  "js_mul (Fin a) (Fin b) = Fin (a * b)"
| "js_mul (Fin a) PosInf = (if a = 0 then NaN else signed_inf (0 < a))"
| "js_mul (Fin a) NegInf = (if a = 0 then NaN else signed_inf (a < 0))"
| "js_mul PosInf (Fin b) = (if b = 0 then NaN else signed_inf (0 < b))"
| "js_mul NegInf (Fin b) = (if b = 0 then NaN else signed_inf (b < 0))"
| "js_mul PosInf PosInf = PosInf"
| "js_mul NegInf NegInf = PosInf"
| "js_mul PosInf NegInf = NegInf"
| "js_mul NegInf PosInf = NegInf"
| "js_mul NaN y = NaN"
| "js_mul (Fin a) NaN = NaN"
| "js_mul PosInf NaN = NaN"
| "js_mul NegInf NaN = NaN"

fun js_div :: "number \<Rightarrow> number \<Rightarrow> number" where
  "js_div (Fin a) (Fin b) =
     (if b \<noteq> 0 then Fin (a / b)
      else if a = 0 then NaN
      else signed_inf (0 < a))"
| "js_div (Fin a) PosInf = Fin 0"
| "js_div (Fin a) NegInf = Fin 0"
| "js_div PosInf (Fin b) = signed_inf (0 \<le> b)"
| "js_div NegInf (Fin b) = signed_inf (b < 0)"
| "js_div PosInf PosInf = NaN"
| "js_div NegInf NegInf = NaN"
| "js_div PosInf NegInf = NaN"
| "js_div NegInf PosInf = NaN"
| "js_div NaN y = NaN"
| "js_div (Fin a) NaN = NaN"
| "js_div PosInf NaN = NaN"
| "js_div NegInf NaN = NaN"

text \<open>Comparisons: every comparison with NaN is false.\<close>

fun js_lt :: "number \<Rightarrow> number \<Rightarrow> bool" where
  "js_lt (Fin a) (Fin b) = (a < b)"
| "js_lt (Fin a) PosInf = True"
| "js_lt NegInf (Fin b) = True"
| "js_lt NegInf PosInf = True"
| "js_lt x y = False"

definition js_eq :: "number \<Rightarrow> number \<Rightarrow> bool" where
  "js_eq x y = (x \<noteq> NaN \<and> y \<noteq> NaN \<and> x = y)"

definition js_le :: "number \<Rightarrow> number \<Rightarrow> bool" where
  "js_le x y = (js_lt x y \<or> js_eq x y)"

definition js_gt :: "number \<Rightarrow> number \<Rightarrow> bool" where
  "js_gt x y = js_lt y x"

definition js_ge :: "number \<Rightarrow> number \<Rightarrow> bool" where
  "js_ge x y = js_le y x"

text \<open>The functions of the \<^verbatim>\<open>Math\<close> object that the program calls.\<close>

definition Math_PI :: number where
  "Math_PI = Fin pi"

definition Math_min :: "number \<Rightarrow> number \<Rightarrow> number" where
  "Math_min x y = (if x = NaN \<or> y = NaN then NaN else if js_lt y x then y else x)"

definition Math_max :: "number \<Rightarrow> number \<Rightarrow> number" where
  "Math_max x y = (if x = NaN \<or> y = NaN then NaN else if js_lt x y then y else x)"

fun Math_abs :: "number \<Rightarrow> number" where
  "Math_abs (Fin a) = Fin \<bar>a\<bar>"
| "Math_abs PosInf = PosInf"
| "Math_abs NegInf = PosInf"
| "Math_abs NaN = NaN"

fun Math_cos :: "number \<Rightarrow> number" where
  "Math_cos (Fin a) = Fin (cos a)"
| "Math_cos x = NaN"

fun Math_sin :: "number \<Rightarrow> number" where
  "Math_sin (Fin a) = Fin (sin a)"
| "Math_sin x = NaN"

fun Math_acos :: "number \<Rightarrow> number" where
  "Math_acos (Fin a) = (if - 1 \<le> a \<and> a \<le> 1 then Fin (arccos a) else NaN)"
| "Math_acos x = NaN"

fun Math_exp :: "number \<Rightarrow> number" where
  "Math_exp (Fin a) = Fin (exp a)"
| "Math_exp PosInf = PosInf"
| "Math_exp NegInf = Fin 0"
| "Math_exp NaN = NaN"

text \<open>Truthiness of a number, as the operator \<^verbatim>\<open>||\<close> reads it: 0 and NaN are falsy.\<close>

definition js_truthy :: "number \<Rightarrow> bool" where
  "js_truthy x = (x \<noteq> NaN \<and> x \<noteq> Fin 0)"

section \<open>types.ts\<close>

datatype FractureType = Ductile | Brittle | Mixed

record Material =
  id_mat :: string
  name :: string
  type_mat :: string
  baseToughness :: number
  color :: string
  description :: string
  fractureType :: FractureType

record PendulumConfig =
  mass :: number
  length_cfg :: number
  startAngle :: number

record TestResult =
  id_res :: string
  timestamp :: number
  material :: Material
  initialEnergy :: number
  absorbedEnergy :: number
  finalAngle :: number
  didBreak :: bool

datatype SimulationState = IDLE | SWINGING_DOWN | IMPACT | SWINGING_UP | OSCILLATING | FINISHED

section \<open>constants.ts\<close>

definition DEFAULT_CONFIG :: PendulumConfig where
  "DEFAULT_CONFIG = \<lparr> mass = Fin 20, length_cfg = Fin 0.8, startAngle = Fin 135 \<rparr>"

definition GRAVITY :: number where
  "GRAVITY = Fin 9.81"

definition MATERIALS :: "Material list" where
  "MATERIALS =
    [ \<lparr> id_mat = ''steel-1045'', name = ''Acero AISI 1045'', type_mat = ''Metal'',
        baseToughness = Fin 180, color = ''#64748b'',
        description = ''Acero de medio carbono. Alta resistencia y buena tenacidad al impacto.'',
        fractureType = Ductile \<rparr>,
      \<lparr> id_mat = ''al-6061'', name = ''Aluminio 6061'', type_mat = ''Metal'',
        baseToughness = Fin 90, color = ''#cbd5e1'',
        description = ''Aleaci'' @ [CHR 0xF3] @ ''n de aluminio endurecida. Vers'' @ [CHR 0xE1]
          @ ''til, ligera y tenacidad moderada.'',
        fractureType = Mixed \<rparr>,
      \<lparr> id_mat = ''cast-iron'', name = ''Hierro Fundido Gris'', type_mat = ''Metal'',
        baseToughness = Fin 15, color = ''#475569'',
        description = ''Material fr'' @ [CHR 0xE1]
          @ ''gil con baja resistencia al impacto pero alta amortiguaci'' @ [CHR 0xF3] @ ''n.'',
        fractureType = Brittle \<rparr>,
      \<lparr> id_mat = ''titanium-grade5'', name = ''Titanio Grado 5'', type_mat = ''Metal'',
        baseToughness = Fin 210, color = ''#94a3b8'',
        description = ''Excelente relaci'' @ [CHR 0xF3]
          @ ''n resistencia-peso y resistencia a la corrosi'' @ [CHR 0xF3] @ ''n.'',
        fractureType = Ductile \<rparr>,
      \<lparr> id_mat = ''pvc-rigid'', name = ''PVC R'' @ [CHR 0xED] @ ''gido'',
        type_mat = ''Pol'' @ [CHR 0xED] @ ''mero'',
        baseToughness = Fin 10, color = ''#e2e8f0'',
        description = ''Termopl'' @ [CHR 0xE1] @ ''stico com'' @ [CHR 0xFA]
          @ ''n. Comportamiento fr'' @ [CHR 0xE1] @ ''gil bajo impacto a alta velocidad.'',
        fractureType = Brittle \<rparr> ]"

section \<open>The energy computation of runSimulation\<close>

text \<open>
  What \<^verbatim>\<open>runSimulation\<close> reads from outside the component in one call: the value of
  \<^verbatim>\<open>Math.random()\<close> (a number in \<open>[0, 1)\<close>) and the two readings of
  \<^verbatim>\<open>Date.now()\<close> (milliseconds, integers), the first for the id and the second for
  the timestamp.
\<close>

record Env =
  Math_random :: real
  Date_now_id :: nat
  Date_now_timestamp :: nat

text \<open>\<^verbatim>\<open>Number.prototype.toString\<close> on a non-negative integer: its decimal digits.\<close>

definition digit_char :: "nat \<Rightarrow> char" where
  "digit_char d = char_of (48 + d)"

fun toString_nat :: "nat \<Rightarrow> string" where
  "toString_nat n =
     (if n < 10 then [digit_char n] else toString_nat (n div 10) @ [digit_char (n mod 10)])"

declare toString_nat.simps [simp del]

text \<open>
  The body of \<^verbatim>\<open>runSimulation\<close> between its guard and its state updates: the
  computation of the \<^verbatim>\<open>TestResult\<close> from the configuration, the selected material
  and the environment. The local names are those of the source.
\<close>

definition runSimulation_result :: "PendulumConfig \<Rightarrow> Material \<Rightarrow> Env \<Rightarrow> TestResult" where
  "runSimulation_result config selectedMaterial env =
    (let startRad = js_mul (startAngle config) (js_div Math_PI (Fin 180));
         h1 = js_mul (length_cfg config) (js_sub (Fin 1) (Math_cos startRad));
         pe1 = js_mul (js_mul (mass config) GRAVITY) h1;
         variance = js_sub (js_mul (Fin (Math_random env)) (Fin 0.1)) (Fin 0.05);
         absorbed0 = js_mul (baseToughness selectedMaterial) (js_add (Fin 1) variance);
         didBreak0 = True;
         (absorbed, didBreak1) =
           (if js_ge absorbed0 pe1 then (pe1, False) else (absorbed0, didBreak0));
         pe2 = js_sub pe1 absorbed;
         h2 = js_div pe2 (js_mul (mass config) GRAVITY);
         cosBeta = js_sub (Fin 1) (js_div h2 (length_cfg config));
         safeCosBeta = Math_max (Fin (- 1)) (Math_min (Fin 1) cosBeta);
         finalAngleRad = Math_acos safeCosBeta;
         finalAngleDeg = js_mul finalAngleRad (js_div (Fin 180) Math_PI)
     in \<lparr> id_res = toString_nat (Date_now_id env),
          timestamp = Fin (real (Date_now_timestamp env)),
          material = selectedMaterial,
          initialEnergy = pe1,
          absorbedEnergy = absorbed,
          finalAngle = finalAngleDeg,
          didBreak = didBreak1 \<rparr>)"

section \<open>The App component\<close>

text \<open>
  The mutable state of one physics simulation in \<^verbatim>\<open>SimulationCanvas\<close>
  (the ref \<^verbatim>\<open>physicsState\<close>).
\<close>

record PhysicsState =
  angle :: number
  velocity :: number
  time :: number

text \<open>
  The three arrow functions that \<^verbatim>\<open>runSimulation\<close> passes to \<^verbatim>\<open>setTimeout\<close>,
  outermost first. A pending timer is a due time in milliseconds and its callback.
\<close>

datatype Timeout = ToImpact | ToSwingingUp | ToOscillating

text \<open>
  The state of the page: the \<^verbatim>\<open>useState\<close> cells of \<^verbatim>\<open>App\<close>, the ref and the
  \<^verbatim>\<open>useState\<close> cell of \<^verbatim>\<open>SimulationCanvas\<close>, and the timer queue of the event
  loop with its clock in milliseconds.
\<close>

record App =
  config :: PendulumConfig
  selectedMaterialId :: string
  simulationState :: SimulationState
  testHistory :: "TestResult list"
  aiAnalysis :: string
  isAnalyzing :: bool
  showMagnifier :: bool
  currentResult :: "TestResult option"
  physicsState :: PhysicsState
  specimenBroken :: bool
  clock :: nat
  timers :: "(nat \<times> Timeout) list"

definition selectedMaterial :: "App \<Rightarrow> Material" where
  "selectedMaterial s =
    (case find (\<lambda>m. id_mat m = selectedMaterialId s) MATERIALS of
       Some m \<Rightarrow> m
     | None \<Rightarrow> MATERIALS ! 0)"

definition setTimeout :: "Timeout \<Rightarrow> nat \<Rightarrow> App \<Rightarrow> App" where
  "setTimeout cb delay s = s\<lparr> timers := timers s @ [(clock s + delay, cb)] \<rparr>"

definition runSimulation :: "Env \<Rightarrow> App \<Rightarrow> App" where
  "runSimulation env s =
    (if simulationState s \<noteq> IDLE then s
     else
       let s1 = s\<lparr> showMagnifier := False \<rparr>;
           result = runSimulation_result (config s) (selectedMaterial s) env;
           s2 = s1\<lparr> currentResult := Some result \<rparr>;
           s3 = s2\<lparr> simulationState := SWINGING_DOWN \<rparr>
       in setTimeout ToImpact 800 s3)"

fun run_timeout :: "Timeout \<Rightarrow> App \<Rightarrow> App" where
  "run_timeout ToImpact s = setTimeout ToSwingingUp 100 (s\<lparr> simulationState := IMPACT \<rparr>)"
| "run_timeout ToSwingingUp s =
     setTimeout ToOscillating 1000 (s\<lparr> simulationState := SWINGING_UP \<rparr>)"
| "run_timeout ToOscillating s = s\<lparr> simulationState := OSCILLATING \<rparr>"

definition handleAnimationComplete :: "App \<Rightarrow> App" where
  "handleAnimationComplete s =
    (let s1 = s\<lparr> simulationState := IDLE \<rparr>
     in case currentResult s of
          Some r \<Rightarrow> s1\<lparr> testHistory := testHistory s1 @ [r] \<rparr>
        | None \<Rightarrow> s1)"

definition clearHistory :: "App \<Rightarrow> App" where
  "clearHistory s = s\<lparr> testHistory := [], aiAnalysis := [], currentResult := None \<rparr>"

section \<open>The SimulationCanvas component\<close>

text \<open>The prop \<^verbatim>\<open>finalAngleResult={currentResult?.finalAngle || 0}\<close>.\<close>

definition finalAngleResult :: "App \<Rightarrow> number" where
  "finalAngleResult s =
    (case currentResult s of
       None \<Rightarrow> Fin 0
     | Some r \<Rightarrow> if js_truthy (finalAngle r) then finalAngle r else Fin 0)"

definition initialPhysics :: "PendulumConfig \<Rightarrow> PhysicsState" where
  "initialPhysics cfg =
    \<lparr> angle = js_mul (js_neg (startAngle cfg)) (js_div Math_PI (Fin 180)),
      velocity = Fin 0,
      time = Fin 0 \<rparr>"

text \<open>
  The effect with dependencies \<^verbatim>\<open>[state, config.startAngle]\<close>: its body, and the
  re-run of the body after a render in which a dependency has changed.
\<close>

definition resetEffect :: "App \<Rightarrow> App" where
  "resetEffect s =
    (if simulationState s = IDLE
     then s\<lparr> physicsState := initialPhysics (config s), specimenBroken := False \<rparr>
     else s)"

definition useEffect_reset :: "App \<Rightarrow> App \<Rightarrow> App" where
  "useEffect_reset old new =
    (if simulationState new \<noteq> simulationState old
        \<or> startAngle (config new) \<noteq> startAngle (config old)
     then resetEffect new else new)"

text \<open>One call of \<^verbatim>\<open>animate\<close>, without the drawing.\<close>

definition animate :: "App \<Rightarrow> App" where
  "animate s =
    (if simulationState s = IDLE then s
     else
       let dt = Fin 0.016;
           p = physicsState s
       in if simulationState s = SWINGING_DOWN then
            let acc = js_mul (js_neg (js_div GRAVITY (length_cfg (config s)))) (Math_sin (angle p));
                p1 = p\<lparr> velocity := js_add (velocity p) (js_mul acc dt) \<rparr>;
                p2 = p1\<lparr> angle := js_add (angle p1) (js_mul (velocity p1) dt) \<rparr>
            in if js_ge (angle p2) (Fin 0)
               then s\<lparr> physicsState := p2\<lparr> angle := Fin 0 \<rparr>, specimenBroken := True \<rparr>
               else s\<lparr> physicsState := p2 \<rparr>
          else if simulationState s = SWINGING_UP then
            let targetRad = js_mul (finalAngleResult s) (js_div Math_PI (Fin 180));
                dist = js_sub targetRad (angle p)
            in if js_lt (Math_abs dist) (Fin 0.01)
               then s\<lparr> physicsState := p\<lparr> velocity := Fin 0 \<rparr> \<rparr>
               else s\<lparr> physicsState := p\<lparr> angle := js_add (angle p) (js_mul dist (Fin 0.05)) \<rparr> \<rparr>
          else if simulationState s = OSCILLATING then
            let targetRad = js_mul (finalAngleResult s) (js_div Math_PI (Fin 180));
                p1 = p\<lparr> time := js_add (time p) dt \<rparr>;
                amplitude = js_mul (Fin 0.1) (Math_exp (js_neg (time p1)));
                p2 = p1\<lparr> angle :=
                       js_add targetRad (js_mul (Math_sin (js_mul (time p1) (Fin 8))) amplitude) \<rparr>;
                s1 = s\<lparr> physicsState := p2 \<rparr>
            in if js_gt (time p2) (Fin 3) then handleAnimationComplete s1 else s1
          else s)"

section \<open>Timers and events\<close>

text \<open>
  The pending timer that fires next: the one with the least due time, the one registered
  first among equals.
\<close>

fun earliest :: "(nat \<times> Timeout) list \<Rightarrow> (nat \<times> Timeout) option" where
  "earliest [] = None"
| "earliest (x # xs) =
     (case earliest xs of
        None \<Rightarrow> Some x
      | Some y \<Rightarrow> if fst y < fst x then Some y else Some x)"

text \<open>
  Each callback registers at most the next one of the chain, so the ranks of the pending
  timers decrease with every firing.
\<close>

fun rank :: "Timeout \<Rightarrow> nat" where
  "rank ToImpact = 3"
| "rank ToSwingingUp = 2"
| "rank ToOscillating = 1"

text \<open>
  Let the clock advance to \<open>limit\<close>: the timers that are due by then fire in order, each at
  its due time, and a callback may register a timer that is due by \<open>limit\<close> too.
\<close>

function run_timers :: "nat \<Rightarrow> App \<Rightarrow> App" where
  "run_timers limit s =
    (case earliest (timers s) of
       None \<Rightarrow> s\<lparr> clock := limit \<rparr>
     | Some (due, cb) \<Rightarrow>
         if due \<le> limit
         then run_timers limit
                (run_timeout cb
                  (s\<lparr> clock := max (clock s) due, timers := remove1 (due, cb) (timers s) \<rparr>))
         else s\<lparr> clock := limit \<rparr>)"
  by pat_completeness auto
termination
proof (relation "measure (\<lambda>(limit, s). sum_list (map (rank \<circ> snd) (timers s)))")
  show "wf (measure (\<lambda>(limit, s). sum_list (map (rank \<circ> snd) (timers s))))"
    by simp
next
  fix limit :: nat and s :: App and x :: "nat \<times> Timeout" and due :: nat and cb :: Timeout
  assume e: "earliest (timers s) = Some x" and x: "(due, cb) = x"
  have mem: "earliest xs = Some y \<Longrightarrow> y \<in> set xs" for xs and y :: "nat \<times> Timeout"
    by (induction xs arbitrary: y) (auto split: option.splits if_splits)
  from e x have "(due, cb) \<in> set (timers s)"
    using mem by simp
  then have total: "sum_list (map (rank \<circ> snd) (timers s)) =
      rank cb + sum_list (map (rank \<circ> snd) (remove1 (due, cb) (timers s)))"
    using sum_list_map_remove1 [of "(due, cb)" "timers s" "rank \<circ> snd"] by simp
  show "((limit, run_timeout cb (s\<lparr> clock := max (clock s) due,
            timers := remove1 (due, cb) (timers s) \<rparr>)), (limit, s))
        \<in> measure (\<lambda>(limit, s). sum_list (map (rank \<circ> snd) (timers s)))"
    using total by (cases cb) (simp_all add: setTimeout_def)
qed

declare run_timers.simps [simp del]

text \<open>
  What can happen to the page: a click on the start button, a click on the clear button
  (rendered only while the history is non-empty), a change of one of the three sliders or of
  the material (all disabled unless idle), a click on the magnifier button, an animation
  frame, and the passing of some milliseconds.
\<close>

datatype Event =
    ClickStart Env
  | ClickClear
  | ChangeMass number
  | ChangeLength number
  | ChangeStartAngle number
  | SelectMaterial string
  | ToggleMagnifier
  | AnimationFrame
  | Elapse nat

fun handle :: "Event \<Rightarrow> App \<Rightarrow> App" where
  "handle (ClickStart env) s = runSimulation env s"
| "handle ClickClear s = (if testHistory s \<noteq> [] then clearHistory s else s)"
| "handle (ChangeMass v) s =
     (if simulationState s \<noteq> IDLE then s else s\<lparr> config := (config s)\<lparr> mass := v \<rparr> \<rparr>)"
| "handle (ChangeLength v) s =
     (if simulationState s \<noteq> IDLE then s else s\<lparr> config := (config s)\<lparr> length_cfg := v \<rparr> \<rparr>)"
| "handle (ChangeStartAngle v) s =
     (if simulationState s \<noteq> IDLE then s else s\<lparr> config := (config s)\<lparr> startAngle := v \<rparr> \<rparr>)"
| "handle (SelectMaterial m) s =
     (if simulationState s \<noteq> IDLE then s else s\<lparr> selectedMaterialId := m \<rparr>)"
| "handle ToggleMagnifier s = s\<lparr> showMagnifier := \<not> showMagnifier s \<rparr>"
| "handle AnimationFrame s = animate s"
| "handle (Elapse d) s = run_timers (clock s + d) s"

text \<open>An event: its handler, then the render with its effect.\<close>

definition step :: "Event \<Rightarrow> App \<Rightarrow> App" where
  "step e s = useEffect_reset s (handle e s)"


text \<open>The page as it is first rendered.\<close>

definition initialApp :: App where
  "initialApp =
    \<lparr> config = DEFAULT_CONFIG,
      selectedMaterialId = id_mat (MATERIALS ! 0),
      simulationState = IDLE,
      testHistory = [],
      aiAnalysis = [],
      isAnalyzing = False,
      showMagnifier = False,
      currentResult = None,
      physicsState = initialPhysics DEFAULT_CONFIG,
      specimenBroken = False,
      clock = 0,
      timers = [] \<rparr>"

section \<open>services/geminiService.ts\<close>

text \<open>
  A JavaScript string is a list of UTF-16 code units; every code unit of the literals below
  is less than 256 and is written as one \<^typ>\<open>char\<close>.
\<close>

datatype thrown = Thrown string

text \<open>
  The outside of \<^verbatim>\<open>analyzeResults\<close>: the requests sent to the model (model name and
  contents) and the lines written by \<^verbatim>\<open>console.error\<close>.
\<close>

record Outside =
  requests :: "(string \<times> string) list"
  console_errors :: "(string \<times> thrown) list"

text \<open>
  The awaited call \<^verbatim>\<open>ai.models.generateContent\<close> followed by the read of
  \<^verbatim>\<open>response.text\<close>: it throws, or it yields the text, which may be undefined.
\<close>

type_synonym GenerateContent = "string \<Rightarrow> string \<Rightarrow> thrown + string option"

fun fractureType_string :: "FractureType \<Rightarrow> string" where
  "fractureType_string Ductile = ''Ductile''"
| "fractureType_string Brittle = ''Brittle''"
| "fractureType_string Mixed = ''Mixed''"

fun join :: "string \<Rightarrow> string list \<Rightarrow> string" where
  "join sep [] = []"
| "join sep [x] = x"
| "join sep (x # y # ys) = x @ sep @ join sep (y # ys)"

text \<open>
  The line of the summary for one result. \<^verbatim>\<open>Number.prototype.toFixed\<close> is a function of
  the runtime and a parameter here.
\<close>

definition result_line :: "(number \<Rightarrow> nat \<Rightarrow> string) \<Rightarrow> TestResult \<Rightarrow> string" where
  "result_line toFixed r =
     ''- Material: '' @ name (material r) @ '' ('' @ fractureType_string (fractureType (material r))
     @ '')'' @ [CHR 0x0A] @ ''     - Energ'' @ [CHR 0xED] @ ''a Inicial: ''
     @ toFixed (initialEnergy r) 2
     @ '' J'' @ [CHR 0x0A] @ ''     - Energ'' @ [CHR 0xED] @ ''a Absorbida: ''
     @ toFixed (absorbedEnergy r) 2
     @ '' J'' @ [CHR 0x0A] @ ''     - '' @ [CHR 0xC1] @ ''ngulo Final: ''
     @ toFixed (finalAngle r) 2
     @ '' grados''"

definition prompt_of :: "string \<Rightarrow> string" where
  "prompt_of resultsSummary =
     [CHR 0x0A] @ ''    Act'' @ [CHR 0xFA]
     @ ''a como un Ingeniero de Materiales Senior analizando datos del Ensayo de Impacto Charpy.''
     @ [CHR 0x0A] @ ''    '' @ [CHR 0x0A] @ ''    Aqu'' @ [CHR 0xED] @ '' est'' @ [CHR 0xE1]
     @ ''n los resultados recientes de las pruebas:'' @ [CHR 0x0A] @ ''    ''
     @ resultsSummary
     @ [CHR 0x0A] @ [CHR 0x0A] @ ''    Por favor, proporciona un an'' @ [CHR 0xE1] @ ''lisis t''
     @ [CHR 0xE9] @ ''cnico conciso en espa'' @ [CHR 0xF1] @ ''ol que cubra:'' @ [CHR 0x0A]
     @ ''    1. Una comparaci'' @ [CHR 0xF3] @ ''n de la tenacidad (energ'' @ [CHR 0xED]
     @ ''a absorbida) de los materiales probados.'' @ [CHR 0x0A]
     @ ''    2. Una explicaci'' @ [CHR 0xF3] @ ''n de la relaci'' @ [CHR 0xF3]
     @ ''n entre la energ'' @ [CHR 0xED] @ ''a absorbida y el tipo de fractura (D'' @ [CHR 0xFA]
     @ ''ctil vs Fr'' @ [CHR 0xE1] @ ''gil) observada en los datos.'' @ [CHR 0x0A]
     @ ''    3. Implicaciones pr'' @ [CHR 0xE1] @ ''cticas: '' @ [CHR 0xBF] @ ''D'' @ [CHR 0xF3]
     @ ''nde usar'' @ [CHR 0xED] @ ''as el material m'' @ [CHR 0xE1] @ ''s tenaz frente al m''
     @ [CHR 0xE1] @ ''s fr'' @ [CHR 0xE1] @ ''gil bas'' @ [CHR 0xE1]
     @ ''ndote en estos resultados?'' @ [CHR 0x0A] @ ''    '' @ [CHR 0x0A]
     @ ''    Formatea la respuesta en Markdown claro. Mant'' @ [CHR 0xE9]
     @ ''n un tono profesional pero accesible para estudiantes de ingenier'' @ [CHR 0xED] @ ''a.''
     @ [CHR 0x0A] @ ''  ''"

text \<open>
  A \<^verbatim>\<open>try\<close> block with its \<^verbatim>\<open>catch\<close> clause: the handler runs on what the block
  has thrown. Both return the value of the function or throw (\<open>Inl\<close>), next to the outside.
\<close>

definition try_catch ::
  "(thrown + 'a) \<times> Outside \<Rightarrow> (thrown \<Rightarrow> Outside \<Rightarrow> (thrown + 'a) \<times> Outside)
    \<Rightarrow> (thrown + 'a) \<times> Outside" where
  "try_catch block handler =
    (case fst block of
       Inr v \<Rightarrow> block
     | Inl error \<Rightarrow> handler error (snd block))"

text \<open>
  \<^verbatim>\<open>analyzeResults\<close>: the promise it returns is fulfilled with a string (\<open>Inr\<close>) or
  rejected (\<open>Inl\<close>).
\<close>

definition analyzeResults ::
  "(number \<Rightarrow> nat \<Rightarrow> string) \<Rightarrow> GenerateContent \<Rightarrow> TestResult list \<Rightarrow> Outside
    \<Rightarrow> (thrown + string) \<times> Outside" where
  "analyzeResults toFixed generateContent results out =
    (if length results = 0 then (Inr ''No hay resultados para analizar.'', out)
     else
       let resultsSummary = join [CHR 0x0A] (map (result_line toFixed) results);
           prompt = prompt_of resultsSummary
       in try_catch
            (let out1 = out\<lparr> requests := requests out @ [(''gemini-2.5-flash'', prompt)] \<rparr>
             in case generateContent ''gemini-2.5-flash'' prompt of
                  Inl error \<Rightarrow> (Inl error, out1)
                | Inr text \<Rightarrow>
                    (Inr (case text of
                            Some t \<Rightarrow>
                              if t \<noteq> [] then t
                              else ''An'' @ [CHR 0xE1] @ ''lisis completo, pero no se devolvi''
                                   @ [CHR 0xF3] @ '' texto.''
                          | None \<Rightarrow>
                              ''An'' @ [CHR 0xE1] @ ''lisis completo, pero no se devolvi''
                              @ [CHR 0xF3] @ '' texto.''),
                     out1))
            (\<lambda>error out2.
               (Inr (''Error al generar el an'' @ [CHR 0xE1]
                     @ ''lisis. Por favor verifica la configuraci'' @ [CHR 0xF3] @ ''n de la API.''),
                out2\<lparr> console_errors := console_errors out2 @ [(''Gemini API Error:'', error)] \<rparr>)))"

section \<open>The falling tick as the specification words it\<close>

text \<open>
  One tick of the falling phase of the specification, over the reals: the angle, the
  angular velocity and the broken flag after a step \<open>dt\<close>.
\<close>

definition falling_tick_spec ::
  "real \<Rightarrow> real \<Rightarrow> real \<Rightarrow> real \<times> real \<times> bool \<Rightarrow> real \<times> real \<times> bool" where
  "falling_tick_spec g L dt st =
    (case st of (angle0, velocity0, broken0) \<Rightarrow>
       let angularAcceleration = - (g / L) * sin angle0;
           velocity1 = velocity0 + angularAcceleration * dt;
           angle1 = angle0 + velocity1 * dt
       in if angle1 \<ge> 0 then (0, velocity1, True) else (angle1, velocity1, broken0))"

section \<open>The phases of a run against the clock\<close>







section \<open>Concrete inputs\<close>

text \<open>
  Two environments with the same draw \<open>0.5\<close> (the variance 0 of the specification's
  scenarios) and clock readings five seconds apart.
\<close>

definition scenario_env :: Env where
  "scenario_env = \<lparr> Math_random = 0.5, Date_now_id = 1700000000000,
                     Date_now_timestamp = 1700000000000 \<rparr>"

definition later_env :: Env where
  "later_env = \<lparr> Math_random = 0.5, Date_now_id = 1700000005000,
                   Date_now_timestamp = 1700000005000 \<rparr>"

text \<open>The default configuration with the mass set to zero, and with a negative mass.\<close>

definition zero_mass_config :: PendulumConfig where
  "zero_mass_config = \<lparr> mass = Fin 0, length_cfg = Fin 0.8, startAngle = Fin 135 \<rparr>"

definition negative_mass_config :: PendulumConfig where
  "negative_mass_config = \<lparr> mass = Fin (- 5), length_cfg = Fin 0.8, startAngle = Fin 135 \<rparr>"

text \<open>A page in the falling phase, the arm just before the vertical and moving towards it.\<close>

definition falling_app :: App where
  "falling_app = initialApp
     \<lparr> simulationState := SWINGING_DOWN,
       physicsState := \<lparr> angle = Fin (- 0.001), velocity = Fin 4, time = Fin 0 \<rparr> \<rparr>"




text \<open>A model call that throws, a formatter, and an outside with no request yet.\<close>

definition failing_remote :: GenerateContent where
  "failing_remote model contents = Inl (Thrown ''503'')"

definition fixed_toFixed :: "number \<Rightarrow> nat \<Rightarrow> string" where
  "fixed_toFixed x digits = ''0.00''"

definition empty_outside :: Outside where
  "empty_outside = \<lparr> requests = [], console_errors = [] \<rparr>"

section \<open>Numbers: the finite case\<close>

lemma js_ge_Fin [simp]: "js_ge (Fin a) (Fin b) = (b \<le> a)"
  by (auto simp: js_ge_def js_le_def js_eq_def)

lemma js_le_Fin [simp]: "js_le (Fin a) (Fin b) = (a \<le> b)"
  by (auto simp: js_le_def js_eq_def)

lemma js_gt_Fin [simp]: "js_gt (Fin a) (Fin b) = (b < a)"
  by (simp add: js_gt_def)

lemma js_sub_Fin [simp]: "js_sub (Fin a) (Fin b) = Fin (a - b)"
  by (simp add: js_sub_def)

lemma Math_min_Fin [simp]: "Math_min (Fin a) (Fin b) = Fin (min a b)"
  by (auto simp: Math_min_def)

lemma Math_max_Fin [simp]: "Math_max (Fin a) (Fin b) = Fin (max a b)"
  by (auto simp: Math_max_def)

lemma js_ge_not_NaN: "js_ge x y \<Longrightarrow> x \<noteq> NaN \<and> y \<noteq> NaN"
  by (cases x; cases y) (auto simp: js_ge_def js_le_def js_eq_def)

lemma js_eq_imp_ge: "js_eq x y \<Longrightarrow> js_ge x y"
  by (auto simp: js_ge_def js_le_def js_eq_def)

lemma sin_small_nonneg: "0 \<le> sin (0.001 :: real)"
  by (rule sin_ge_zero) (use pi_ge_two in simp_all)

section \<open>The energy computation\<close>

text \<open>
  C3. The result has \<open>didBreak = false\<close> exactly when its absorbed energy equals
  (\<^verbatim>\<open>===\<close>) its initial energy. This holds for every configuration, material and
  environment, the valid ones among them.
\<close>

theorem didBreak_iff_arrested:
  "(didBreak (runSimulation_result cfg m env) = False)
     = js_eq (absorbedEnergy (runSimulation_result cfg m env))
             (initialEnergy (runSimulation_result cfg m env))"
proof -
  define pe1 where "pe1 = initialEnergy (runSimulation_result cfg m env)"
  define a0 where "a0 = js_mul (baseToughness m)
      (js_add (Fin 1) (js_sub (js_mul (Fin (Math_random env)) (Fin 0.1)) (Fin 0.05)))"
  have ab: "absorbedEnergy (runSimulation_result cfg m env) = (if js_ge a0 pe1 then pe1 else a0)"
    and db: "didBreak (runSimulation_result cfg m env) = (\<not> js_ge a0 pe1)"
    by (simp_all add: runSimulation_result_def Let_def pe1_def a0_def)
  show ?thesis
  proof (cases "js_ge a0 pe1")
    case True
    then have "pe1 \<noteq> NaN"
      using js_ge_not_NaN by blast
    with True show ?thesis
      unfolding ab db pe1_def [symmetric] by (simp add: js_eq_def)
  next
    case False
    then have "\<not> js_eq a0 pe1"
      using js_eq_imp_ge by blast
    with False show ?thesis
      unfolding ab db pe1_def [symmetric] by simp
  qed
qed

text \<open>
  C7. Two calls of the energy computation with the same configuration, the same material and
  the same draw return results that agree in the material, the initial energy, the absorbed
  energy, the final angle and the outcome. The id and the timestamp are readings of the
  clock: the two results are equal once these two fields are set to the same readings.
\<close>

theorem same_draw_same_result_up_to_clock:
  assumes "Math_random env1 = Math_random env2"
  shows "runSimulation_result cfg mat env1 =
         (runSimulation_result cfg mat env2)
           \<lparr> id_res := toString_nat (Date_now_id env1),
             timestamp := Fin (real (Date_now_timestamp env1)) \<rparr>"
  using assms by (simp add: runSimulation_result_def Let_def split: prod.splits)

theorem same_draw_same_result_up_to_clock_witness:
  "Math_random scenario_env = Math_random later_env
   \<and> runSimulation_result DEFAULT_CONFIG (MATERIALS ! 0) scenario_env =
       (runSimulation_result DEFAULT_CONFIG (MATERIALS ! 0) later_env)
         \<lparr> id_res := toString_nat 1700000000000, timestamp := Fin 1700000000000 \<rparr>"
  using same_draw_same_result_up_to_clock [of scenario_env later_env DEFAULT_CONFIG "MATERIALS ! 0"]
  by (simp add: scenario_env_def later_env_def)

text \<open>
  The same configuration, material and draw, five seconds apart: the two results differ
  (in the timestamp).
\<close>

theorem clock_fields_differ_counterexample:
  "Math_random scenario_env = Math_random later_env
   \<and> runSimulation_result DEFAULT_CONFIG (MATERIALS ! 0) scenario_env
       \<noteq> runSimulation_result DEFAULT_CONFIG (MATERIALS ! 0) later_env"
proof -
  have "timestamp (runSimulation_result DEFAULT_CONFIG (MATERIALS ! 0) scenario_env)
      \<noteq> timestamp (runSimulation_result DEFAULT_CONFIG (MATERIALS ! 0) later_env)"
    by (simp add: runSimulation_result_def Let_def scenario_env_def later_env_def
        split: prod.splits)
  then show ?thesis
    by (auto simp: scenario_env_def later_env_def)
qed

section \<open>The trigger\<close>

lemma initialApp_idle:
  "simulationState initialApp = IDLE" "timers initialApp = []"
  "time (physicsState initialApp) = Fin 0" "testHistory initialApp = []"
  "config initialApp = DEFAULT_CONFIG" "selectedMaterial initialApp = MATERIALS ! 0"
  by (simp_all add: initialApp_def initialPhysics_def selectedMaterial_def MATERIALS_def)

lemma started:
  assumes "simulationState s = IDLE" and "timers s = []"
  shows "step (ClickStart env) s =
     s\<lparr> showMagnifier := False,
        currentResult := Some (runSimulation_result (config s) (selectedMaterial s) env),
        simulationState := SWINGING_DOWN,
        timers := [(clock s + 800, ToImpact)] \<rparr>"
  using assms
  by (simp add: step_def runSimulation_def Let_def setTimeout_def useEffect_reset_def
      resetEffect_def)

text \<open>
  C9. The energy computation has no precondition check and no error branch: for every
  configuration, a non-positive mass or length included, a trigger on an idle page stores
  the computed result and starts the run.
\<close>

theorem no_precondition_check:
  assumes "simulationState s = IDLE"
  shows "currentResult (runSimulation env s)
           = Some (runSimulation_result (config s) (selectedMaterial s) env)
         \<and> simulationState (runSimulation env s) = SWINGING_DOWN"
  using assms by (simp add: runSimulation_def Let_def setTimeout_def)

theorem no_precondition_check_witness:
  "simulationState (initialApp\<lparr> config := negative_mass_config \<rparr>) = IDLE
   \<and> currentResult (runSimulation scenario_env (initialApp\<lparr> config := negative_mass_config \<rparr>))
       = Some (runSimulation_result negative_mass_config (MATERIALS ! 0) scenario_env)
   \<and> simulationState (runSimulation scenario_env (initialApp\<lparr> config := negative_mass_config \<rparr>))
       = SWINGING_DOWN"
  using no_precondition_check [of "initialApp\<lparr> config := negative_mass_config \<rparr>" scenario_env]
  by (simp add: initialApp_def selectedMaterial_def MATERIALS_def)

text \<open>
  With the mass 0 the trigger does not fail: the run starts, and the stored result has the
  initial energy 0 and the final angle NaN (from \<open>0 / 0\<close>).
\<close>

theorem zero_mass_counterexample:
  "simulationState (runSimulation scenario_env (initialApp\<lparr> config := zero_mass_config \<rparr>))
     = SWINGING_DOWN
   \<and> map_option initialEnergy
       (currentResult (runSimulation scenario_env (initialApp\<lparr> config := zero_mass_config \<rparr>)))
     = Some (Fin 0)
   \<and> map_option finalAngle
       (currentResult (runSimulation scenario_env (initialApp\<lparr> config := zero_mass_config \<rparr>)))
     = Some NaN"
  by (simp add: runSimulation_def Let_def setTimeout_def initialApp_def zero_mass_config_def
      runSimulation_result_def selectedMaterial_def MATERIALS_def scenario_env_def GRAVITY_def
      Math_PI_def Math_min_def Math_max_def js_sub_def)

text \<open>
  C4. In every state other than idle a trigger changes nothing: the whole page (simulation
  state, pending result, physics state, pending timers and the rest) is as before, both
  for the handler \<^verbatim>\<open>runSimulation\<close> and for the click with its render.
\<close>

theorem trigger_ignored_unless_idle:
  assumes "simulationState s \<noteq> IDLE"
  shows "runSimulation env s = s \<and> step (ClickStart env) s = s"
  using assms by (simp add: runSimulation_def step_def useEffect_reset_def)

theorem trigger_ignored_unless_idle_witness:
  "simulationState (step (ClickStart scenario_env) initialApp) \<noteq> IDLE
   \<and> runSimulation later_env (step (ClickStart scenario_env) initialApp)
       = step (ClickStart scenario_env) initialApp
   \<and> step (ClickStart later_env) (step (ClickStart scenario_env) initialApp)
       = step (ClickStart scenario_env) initialApp"
proof -
  have "simulationState (step (ClickStart scenario_env) initialApp) \<noteq> IDLE"
    by (simp add: started initialApp_idle)
  then show ?thesis
    using trigger_ignored_unless_idle [of "step (ClickStart scenario_env) initialApp" later_env]
    by simp
qed

section \<open>The falling phase\<close>

text \<open>
  C8. In the falling phase, with a finite angle and velocity and an arm length that is not
  zero, one call of \<^verbatim>\<open>animate\<close> is the specification's tick with \<open>g = 9.81\<close> and
  \<open>dt = 0.016\<close>: the acceleration \<open>-(g / L) * sin angle\<close>, the velocity advanced by the
  acceleration, the angle advanced by the new velocity, and at an angle of 0 or more the
  angle set to 0 and the specimen shown broken. The pending result, hence its outcome, has
  no part in it.
\<close>

theorem falling_tick_is_euler_step:
  assumes "simulationState s = SWINGING_DOWN"
    and "length_cfg (config s) = Fin L" and "L \<noteq> 0"
    and "physicsState s = \<lparr> angle = Fin a, velocity = Fin v, time = tm \<rparr>"
  shows "animate s =
          (case falling_tick_spec 9.81 L 0.016 (a, v, specimenBroken s) of
             (a1, v1, b1) \<Rightarrow>
               s\<lparr> physicsState := \<lparr> angle = Fin a1, velocity = Fin v1, time = tm \<rparr>,
                  specimenBroken := b1 \<rparr>)
         \<and> physicsState (animate (s\<lparr> currentResult := r \<rparr>)) = physicsState (animate s)
         \<and> specimenBroken (animate (s\<lparr> currentResult := r \<rparr>)) = specimenBroken (animate s)"
  using assms
  by (simp add: animate_def falling_tick_spec_def Let_def GRAVITY_def)

theorem falling_tick_is_euler_step_witness:
  "simulationState falling_app = SWINGING_DOWN
   \<and> animate falling_app =
       falling_app\<lparr> physicsState := \<lparr> angle = Fin 0,
           velocity = Fin (4 + - (9.81 / 0.8) * sin (- 0.001) * 0.016), time = Fin 0 \<rparr>,
         specimenBroken := True \<rparr>"
proof -
  have pos: "(0::real) \<le> - 0.001 + (4 + - (9.81 / 0.8) * sin (- 0.001) * 0.016) * 0.016"
    using sin_small_nonneg by simp
  show ?thesis
    using falling_tick_is_euler_step [of falling_app "0.8" "- 0.001" 4 "Fin 0" None] pos
    by (simp add: falling_app_def initialApp_def DEFAULT_CONFIG_def falling_tick_spec_def Let_def)
qed

section \<open>Timers\<close>








section \<open>Frames and the render\<close>






section \<open>The phase is a function of the elapsed milliseconds\<close>








section \<open>The history\<close>
















section \<open>analyzeResults\<close>

text \<open>
  C10. The promise of \<^verbatim>\<open>analyzeResults\<close> is never rejected. For the empty list it is
  fulfilled with the fixed string and the outside is untouched: no request is sent. For a
  non-empty list on which the call of the model throws, it is fulfilled with the fixed
  error string.
\<close>

theorem analyzeResults_never_rejects:
  "(\<exists>str. fst (analyzeResults toFixed generateContent results out) = Inr str)
   \<and> analyzeResults toFixed generateContent [] out
       = (Inr ''No hay resultados para analizar.'', out)
   \<and> (results \<noteq> [] \<longrightarrow>
        generateContent ''gemini-2.5-flash''
          (prompt_of (join [CHR 0x0A] (map (result_line toFixed) results))) = Inl error \<longrightarrow>
        fst (analyzeResults toFixed generateContent results out)
          = Inr (''Error al generar el an'' @ [CHR 0xE1]
                 @ ''lisis. Por favor verifica la configuraci'' @ [CHR 0xF3] @ ''n de la API.''))"
  by (auto simp: analyzeResults_def try_catch_def Let_def split: sum.splits option.splits)

theorem analyzeResults_never_rejects_witness:
  "[runSimulation_result DEFAULT_CONFIG (MATERIALS ! 0) scenario_env] \<noteq> []
   \<and> fst (analyzeResults fixed_toFixed failing_remote
            [runSimulation_result DEFAULT_CONFIG (MATERIALS ! 0) scenario_env] empty_outside)
       = Inr (''Error al generar el an'' @ [CHR 0xE1]
                 @ ''lisis. Por favor verifica la configuraci'' @ [CHR 0xF3] @ ''n de la API.'')"
  using analyzeResults_never_rejects [of fixed_toFixed failing_remote
      "[runSimulation_result DEFAULT_CONFIG (MATERIALS ! 0) scenario_env]" empty_outside
      "Thrown ''503''"]
  by (simp add: failing_remote_def)

end
